theory Spec2Isabelle
  imports Complex_Main "HOL-Library.Sublist"
begin

section \<open>Values, exceptions and conversation turns\<close>

text \<open>
  The model follows \<^verbatim>\<open>api.py\<close>; the graph of \<^verbatim>\<open>rag.py\<close> has the same nodes and edges
  and differs only in console logging and in having no global list of sources.

  A raised Python exception is a value: its class name and its message (\<^verbatim>\<open>str(e)\<close>).
\<close>

datatype py_error = PyError string string

fun error_str :: "py_error \<Rightarrow> string" where
  "error_str (PyError cls msg) = msg"

text \<open>\<^verbatim>\<open>repr(e)\<close> of an exception with one string argument that holds no quote.\<close>

fun error_repr :: "py_error \<Rightarrow> string" where
  "error_repr (PyError cls msg) = cls @ [CHR ''('', CHR 0x27] @ msg @ [CHR 0x27, CHR '')'']"

definition IndexError :: py_error where
  "IndexError = PyError ''IndexError'' ''list index out of range''"

text \<open>
  A metadata value of a retrieved document. Python floats are kept apart by what
  \<^verbatim>\<open>int()\<close> does with them: a finite float is a real number, and the three
  non-finite ones make \<^verbatim>\<open>int()\<close> raise. \<open>PyObject\<close> stands for every other value
  (lists, dicts, ...).
\<close>

datatype pyfloat = Finite real | NaN | PosInf | NegInf

datatype pyval = PyNone | PyBool bool | PyInt int | PyFloat pyfloat | PyStr string | PyObject

text \<open>\<^verbatim>\<open>isinstance(page, (int, float))\<close>: \<^verbatim>\<open>bool\<close> is a subclass of \<^verbatim>\<open>int\<close>.\<close>

fun isinstance_int_float :: "pyval \<Rightarrow> bool" where
  "isinstance_int_float (PyBool b) = True"
| "isinstance_int_float (PyInt i) = True"
| "isinstance_int_float (PyFloat f) = True"
| "isinstance_int_float v = False"

text \<open>Truncation toward zero, as \<^verbatim>\<open>int()\<close> does on a finite float.\<close>

definition trunc :: "real \<Rightarrow> int" where
  "trunc r = (if 0 \<le> r then \<lfloor>r\<rfloor> else \<lceil>r\<rceil>)"

fun float_to_int :: "pyfloat \<Rightarrow> py_error + int" where
  "float_to_int (Finite r) = Inr (trunc r)"
| "float_to_int NaN = Inl (PyError ''ValueError'' ''cannot convert float NaN to integer'')"
| "float_to_int PosInf = Inl (PyError ''OverflowError'' ''cannot convert float infinity to integer'')"
| "float_to_int NegInf = Inl (PyError ''OverflowError'' ''cannot convert float infinity to integer'')"

text \<open>\<^verbatim>\<open>int(page) if isinstance(page, (int, float)) else 0\<close>\<close>

fun page_int :: "pyval \<Rightarrow> py_error + int" where
  "page_int (PyBool b) = Inr (if b then 1 else 0)"
| "page_int (PyInt i) = Inr i"
| "page_int (PyFloat f) = float_to_int f"
| "page_int v = Inr 0"

text \<open>
  \<^verbatim>\<open>doc.page_content[:200] + "..." if len(doc.page_content) > 200 else doc.page_content\<close>:
  the conditional expression binds weaker than \<^verbatim>\<open>+\<close>. A \<open>char\<close> stands for one
  character of the Python string.
\<close>

definition content_preview_of :: "string \<Rightarrow> string" where
  "content_preview_of c = (if length c > 200 then take 200 c @ ''...'' else c)"

text \<open>
  A retrieved document: its text and the two metadata keys the tool reads with
  \<^verbatim>\<open>doc.metadata.get\<close> (\<open>None\<close>: the key is missing). The ingestion script writes
  \<^verbatim>\<open>source_file\<close> as a file name, so it is a string here; \<^verbatim>\<open>page\<close> is any value, since
  the tool itself branches on its type.
\<close>

record document =
  page_content :: string
  metadata_source_file :: "string option"
  metadata_page :: "pyval option"

text \<open>One entry of the global list \<^verbatim>\<open>retrieved_sources\<close>, and the fields of \<^verbatim>\<open>SourceDocument\<close>.\<close>

record source_document =
  source_file :: string
  page :: int
  content_preview :: string

datatype role = Human | AI | ToolResult

text \<open>
  A turn of the conversation. Only \<^verbatim>\<open>retrieve_from_books\<close> is bound to the routing model,
  so a tool call is identified with its \<^verbatim>\<open>query\<close> argument.
\<close>

record message =
  role :: role
  content :: string
  tool_calls :: "string list"

definition HumanMessage :: "string \<Rightarrow> message" where
  "HumanMessage c = \<lparr>role = Human, content = c, tool_calls = []\<rparr>"

definition AIMessage :: "string \<Rightarrow> string list \<Rightarrow> message" where
  "AIMessage c tcs = \<lparr>role = AI, content = c, tool_calls = tcs\<rparr>"

definition ToolMessage :: "string \<Rightarrow> message" where
  "ToolMessage c = \<lparr>role = ToolResult, content = c, tool_calls = []\<rparr>"

section \<open>External collaborators and process state\<close>

text \<open>
  The language model, the vector index and Python's \<^verbatim>\<open>str()\<close> are outside the repository.
  Each call to a service takes the state of the outside world and returns a result or an
  exception together with the new state of the world, so that the same prompt may be
  answered differently at different times.
  \<^item> \<open>retriever_invoke\<close>: \<^verbatim>\<open>retriever.invoke(query)\<close>;
  \<^item> \<open>llm_bind_tools_invoke\<close>: \<^verbatim>\<open>llm.bind_tools([retriever_tool]).invoke(messages)\<close>,
    the content and the tool calls of the answer;
  \<^item> \<open>grader_llm_invoke\<close>: \<^verbatim>\<open>llm.with_structured_output(GradeDocuments).invoke(...)\<close>,
    the field \<^verbatim>\<open>binary_score\<close>, which the schema declares as \<^verbatim>\<open>str\<close>;
  \<^item> \<open>llm_invoke\<close>: \<^verbatim>\<open>llm.invoke(...)\<close>, the content of the answer.
\<close>

record 'w env =
  retriever_invoke :: "'w \<Rightarrow> string \<Rightarrow> (py_error + document list) \<times> 'w"
  llm_bind_tools_invoke :: "'w \<Rightarrow> message list \<Rightarrow> (py_error + string \<times> string list) \<times> 'w"
  grader_llm_invoke :: "'w \<Rightarrow> string \<Rightarrow> (py_error + string) \<times> 'w"
  llm_invoke :: "'w \<Rightarrow> string \<Rightarrow> (py_error + string) \<times> 'w"
  py_str :: "pyval \<Rightarrow> string"

text \<open>
  The state of the server process: the module-level global \<^verbatim>\<open>retrieved_sources\<close> and the
  world. A mutation of the global stays when an exception is raised afterwards, so every
  operation returns its result or exception together with the process state.
\<close>

record 'w process =
  retrieved_sources :: "source_document list"
  world :: 'w

section \<open>The retriever tool\<close>

text \<open>\<^verbatim>\<open>sep.join(xs)\<close>\<close>

fun join :: "string \<Rightarrow> string list \<Rightarrow> string" where
  "join sep [] = []"
| "join sep [x] = x"
| "join sep (x # y # ys) = x @ sep @ join sep (y # ys)"

definition NO_RESULTS :: string where
  "NO_RESULTS = ''No relevant information found in the books.''"

definition newline :: string where
  "newline = [CHR 0x0A]"

text \<open>\<^verbatim>\<open>doc.metadata.get("page", "Unknown")\<close>\<close>

definition page_of :: "document \<Rightarrow> pyval" where
  "page_of doc = (case metadata_page doc of None \<Rightarrow> PyStr ''Unknown'' | Some v \<Rightarrow> v)"

text \<open>
  The \<^verbatim>\<open>for doc in docs\<close> loop: \<open>srcs\<close> is the global list, \<open>results\<close> the local one.
  \<^verbatim>\<open>int(page)\<close> is evaluated while the dict is built, before the append.
\<close>

fun retrieve_loop ::
  "(pyval \<Rightarrow> string) \<Rightarrow> document list \<Rightarrow> source_document list \<Rightarrow> string list
    \<Rightarrow> (py_error + string list) \<times> source_document list" where
  "retrieve_loop str [] srcs results = (Inr results, srcs)"
| "retrieve_loop str (doc # docs) srcs results =
     (let source = (case metadata_source_file doc of None \<Rightarrow> ''Unknown'' | Some s \<Rightarrow> s);
          pg = page_of doc
      in case page_int pg of
           Inl e \<Rightarrow> (Inl e, srcs)
         | Inr n \<Rightarrow>
             retrieve_loop str docs
               (srcs @ [\<lparr>source_file = source, page = n,
                          content_preview = content_preview_of (page_content doc)\<rparr>])
               (results @ [''[Source: '' @ source @ '', Page: '' @ str pg @ '']'' @ newline
                            @ page_content doc]))"

definition retrieve_from_books ::
  "'w env \<Rightarrow> 'w process \<Rightarrow> string \<Rightarrow> (py_error + string) \<times> 'w process" where
  "retrieve_from_books env p query =
     (let p1 = p\<lparr>retrieved_sources := []\<rparr> in
      case retriever_invoke env (world p1) query of
        (Inl e, w) \<Rightarrow> (Inl e, p1\<lparr>world := w\<rparr>)
      | (Inr docs, w) \<Rightarrow>
          if docs = [] then (Inr NO_RESULTS, p1\<lparr>world := w\<rparr>)
          else (case retrieve_loop (py_str env) docs [] [] of
                  (Inl e, srcs) \<Rightarrow> (Inl e, \<lparr>retrieved_sources = srcs, world = w\<rparr>)
                | (Inr results, srcs) \<Rightarrow>
                    (Inr (join (newline @ newline @ ''---'' @ newline @ newline) results),
                     \<lparr>retrieved_sources = srcs, world = w\<rparr>)))"

section \<open>Prompts\<close>

definition GRADE_PROMPT :: "string \<Rightarrow> string \<Rightarrow> string" where
  "GRADE_PROMPT question context =
     ''You are a grader assessing relevance of retrieved documents to a student's question.''
     @ newline @ newline
     @ ''Here is the retrieved document:'' @ newline
     @ context @ newline @ newline
     @ ''Here is the student's question: '' @ question @ newline @ newline
     @ ''If the document contains information that could help answer the student's question (keywords, concepts, formulas, explanations related to the topic), grade it as relevant.''
     @ newline @ newline
     @ ''Give a binary score 'yes' or 'no' to indicate whether the document is relevant to the question.''"

definition REWRITE_PROMPT :: "string \<Rightarrow> string" where
  "REWRITE_PROMPT question =
     ''You are helping to improve a student's question for better search results.''
     @ newline @ newline
     @ ''The previous search didn't return relevant results. Please rewrite the question to be more specific or use different terminology that might be found in school textbooks.''
     @ newline @ newline
     @ ''Original question: '' @ question @ newline @ newline
     @ ''Rewrite the question to improve search results (keep it focused on the educational topic):''"

definition GENERATE_PROMPT :: "string \<Rightarrow> string \<Rightarrow> string" where
  "GENERATE_PROMPT question context =
     ''You are a helpful educational assistant for students. Use the following information from school books to answer the student's question.''
     @ newline @ newline
     @ ''Instructions:'' @ newline
     @ ''- Provide a clear, educational explanation suitable for students'' @ newline
     @ ''- If the context includes formulas or equations, explain them step by step'' @ newline
     @ ''- If you're not sure about something, say so'' @ newline
     @ ''- Keep the answer focused and concise'' @ newline @ newline
     @ ''Question: '' @ question @ newline @ newline
     @ ''Context from books:'' @ newline
     @ context @ newline @ newline
     @ ''Answer:''"

section \<open>Graph components\<close>

datatype node = Generate_query_or_respond | Retrieve | Rewrite_question | Generate_answer

datatype target = Node node | END

text \<open>
  \<^verbatim>\<open>grade_documents\<close> is the conditional edge after \<^verbatim>\<open>retrieve\<close>; the string it returns
  names the next node. \<^verbatim>\<open>state["messages"][0]\<close> raises on an empty list. Each component
  first builds its prompt from the turns and then calls the model with it; the two steps
  are separate definitions.
\<close>

definition grade_prompt :: "message list \<Rightarrow> py_error + string" where
  "grade_prompt ms =
     (case ms of
        [] \<Rightarrow> Inl IndexError
      | m0 # rest \<Rightarrow>
          (let question = content m0;
               context = content (last ms)
           in Inr (GRADE_PROMPT question context)))"

definition grade_documents ::
  "'w env \<Rightarrow> 'w process \<Rightarrow> message list \<Rightarrow> (py_error + node) \<times> 'w process" where
  "grade_documents env p ms =
     (case grade_prompt ms of
        Inl e \<Rightarrow> (Inl e, p)
      | Inr prompt \<Rightarrow>
          (case grader_llm_invoke env (world p) prompt of
             (Inl e, w) \<Rightarrow> (Inl e, p\<lparr>world := w\<rparr>)
           | (Inr binary_score, w) \<Rightarrow>
               (if binary_score = ''yes'' then (Inr Generate_answer, p\<lparr>world := w\<rparr>)
                else (Inr Rewrite_question, p\<lparr>world := w\<rparr>))))"

definition generate_query_or_respond ::
  "'w env \<Rightarrow> 'w process \<Rightarrow> message list \<Rightarrow> (py_error + message list) \<times> 'w process" where
  "generate_query_or_respond env p ms =
     (case llm_bind_tools_invoke env (world p) ms of
        (Inl e, w) \<Rightarrow> (Inl e, p\<lparr>world := w\<rparr>)
      | (Inr (c, tcs), w) \<Rightarrow> (Inr [AIMessage c tcs], p\<lparr>world := w\<rparr>))"

definition rewrite_prompt :: "message list \<Rightarrow> py_error + string" where
  "rewrite_prompt ms =
     (case ms of
        [] \<Rightarrow> Inl IndexError
      | m0 # rest \<Rightarrow> (let question = content m0 in Inr (REWRITE_PROMPT question)))"

definition rewrite_question ::
  "'w env \<Rightarrow> 'w process \<Rightarrow> message list \<Rightarrow> (py_error + message list) \<times> 'w process" where
  "rewrite_question env p ms =
     (case rewrite_prompt ms of
        Inl e \<Rightarrow> (Inl e, p)
      | Inr prompt \<Rightarrow>
          (case llm_invoke env (world p) prompt of
             (Inl e, w) \<Rightarrow> (Inl e, p\<lparr>world := w\<rparr>)
           | (Inr c, w) \<Rightarrow> (Inr [HumanMessage c], p\<lparr>world := w\<rparr>)))"

definition generate_prompt :: "message list \<Rightarrow> py_error + string" where
  "generate_prompt ms =
     (case ms of
        [] \<Rightarrow> Inl IndexError
      | m0 # rest \<Rightarrow>
          (let question = content m0;
               context = content (last ms)
           in Inr (GENERATE_PROMPT question context)))"

definition generate_answer ::
  "'w env \<Rightarrow> 'w process \<Rightarrow> message list \<Rightarrow> (py_error + message list) \<times> 'w process" where
  "generate_answer env p ms =
     (case generate_prompt ms of
        Inl e \<Rightarrow> (Inl e, p)
      | Inr prompt \<Rightarrow>
          (case llm_invoke env (world p) prompt of
             (Inl e, w) \<Rightarrow> (Inl e, p\<lparr>world := w\<rparr>)
           | (Inr c, w) \<Rightarrow> (Inr [AIMessage c []], p\<lparr>world := w\<rparr>)))"

section \<open>The graph runtime\<close>

text \<open>
  \<^verbatim>\<open>StateGraph\<close>, \<^verbatim>\<open>ToolNode\<close> and \<^verbatim>\<open>tools_condition\<close> are library code that
  \<^verbatim>\<open>build_graph\<close> only calls. They are modelled by what they do for this graph, and the
  two settings the repository leaves at the library's defaults are parameters:
  \<^item> \<open>recursion_limit\<close>: the number of node executions one \<^verbatim>\<open>invoke\<close> may make before the
    runtime raises \<^verbatim>\<open>GraphRecursionError\<close>;
  \<^item> \<open>handle_tool_errors\<close>: whether \<^verbatim>\<open>ToolNode\<close> turns an exception of the tool into
    an error text in the tool-result turn, or lets it propagate.
\<close>

record runtime =
  recursion_limit :: nat
  handle_tool_errors :: bool

fun str_nat :: "nat \<Rightarrow> string" where
  "str_nat n = (if n < 10 then [''0123456789'' ! n]
                else str_nat (n div 10) @ [''0123456789'' ! (n mod 10)])"

definition GraphRecursionError :: "nat \<Rightarrow> py_error" where
  "GraphRecursionError limit =
     PyError ''GraphRecursionError''
       (''Recursion limit of '' @ str_nat limit @ '' reached without hitting a stop condition.'')"

text \<open>\<^verbatim>\<open>tools_condition\<close>: only an AI turn has the attribute \<^verbatim>\<open>tool_calls\<close>.\<close>

definition tools_condition :: "message list \<Rightarrow> py_error + target" where
  "tools_condition ms =
     (case ms of
        [] \<Rightarrow> Inl (PyError ''ValueError'' ''No messages found in input state to tool_edge'')
      | m0 # rest \<Rightarrow>
          (if role (last ms) = AI \<and> tool_calls (last ms) \<noteq> [] then Inr (Node Retrieve)
           else Inr END))"

text \<open>
  The tool calls of one routing answer, run in the order of the list (the library hands
  them to a pool of threads). Every call appends one tool-result turn.
\<close>

fun run_tools ::
  "runtime \<Rightarrow> 'w env \<Rightarrow> string list \<Rightarrow> 'w process \<Rightarrow> (py_error + message list) \<times> 'w process" where
  "run_tools rt env [] p = (Inr [], p)"
| "run_tools rt env (query # queries) p =
     (case retrieve_from_books env p query of
        (Inl e, p1) \<Rightarrow>
          (if handle_tool_errors rt then
             (case run_tools rt env queries p1 of
                (Inl e2, p2) \<Rightarrow> (Inl e2, p2)
              | (Inr out, p2) \<Rightarrow>
                  (Inr (ToolMessage (''Error: '' @ error_repr e @ newline
                                      @ '' Please fix your mistakes.'') # out), p2))
           else (Inl e, p1))
      | (Inr text, p1) \<Rightarrow>
          (case run_tools rt env queries p1 of
             (Inl e2, p2) \<Rightarrow> (Inl e2, p2)
           | (Inr out, p2) \<Rightarrow> (Inr (ToolMessage text # out), p2)))"

definition tool_node ::
  "runtime \<Rightarrow> 'w env \<Rightarrow> 'w process \<Rightarrow> message list \<Rightarrow> (py_error + message list) \<times> 'w process" where
  "tool_node rt env p ms =
     (case ms of
        [] \<Rightarrow> (Inl (PyError ''ValueError'' ''No message found in input''), p)
      | m0 # rest \<Rightarrow>
          (if role (last ms) = AI then run_tools rt env (tool_calls (last ms)) p
           else (Inl (PyError ''ValueError'' ''Last message is not an AIMessage''), p)))"

text \<open>The function of each node, as \<^verbatim>\<open>add_node\<close> registers it.\<close>

fun node_update ::
  "runtime \<Rightarrow> 'w env \<Rightarrow> node \<Rightarrow> 'w process \<Rightarrow> message list
    \<Rightarrow> (py_error + message list) \<times> 'w process" where
  "node_update rt env Generate_query_or_respond p ms = generate_query_or_respond env p ms"
| "node_update rt env Retrieve p ms = tool_node rt env p ms"
| "node_update rt env Rewrite_question p ms = rewrite_question env p ms"
| "node_update rt env Generate_answer p ms = generate_answer env p ms"

text \<open>The edge that leaves each node, evaluated on the state after the node's update.\<close>

fun next_target ::
  "'w env \<Rightarrow> node \<Rightarrow> 'w process \<Rightarrow> message list \<Rightarrow> (py_error + target) \<times> 'w process" where
  "next_target env Generate_query_or_respond p ms = (tools_condition ms, p)"
| "next_target env Retrieve p ms =
     (case grade_documents env p ms of
        (Inl e, p1) \<Rightarrow> (Inl e, p1)
      | (Inr n, p1) \<Rightarrow> (Inr (Node n), p1))"
| "next_target env Generate_answer p ms = (Inr END, p)"
| "next_target env Rewrite_question p ms = (Inr (Node Generate_query_or_respond), p)"

text \<open>
  One node execution: the update is appended to the turns (the reducer of
  \<^verbatim>\<open>MessagesState\<close>), then the outgoing edge chooses the next node.
\<close>

definition step ::
  "runtime \<Rightarrow> 'w env \<Rightarrow> node \<Rightarrow> 'w process \<Rightarrow> message list
    \<Rightarrow> (py_error + target \<times> message list) \<times> 'w process" where
  "step rt env n p ms =
     (case node_update rt env n p ms of
        (Inl e, p1) \<Rightarrow> (Inl e, p1)
      | (Inr upd, p1) \<Rightarrow>
          (case next_target env n p1 (ms @ upd) of
             (Inl e, p2) \<Rightarrow> (Inl e, p2)
           | (Inr t, p2) \<Rightarrow> (Inr (t, ms @ upd), p2)))"

text \<open>
  Running the compiled graph from a node with a budget of node executions. The run
  records every node execution (the node, the turns and the process state it was entered
  with), the final turns or the exception, and the final process state.
\<close>

record 'w run =
  visited :: "(node \<times> message list \<times> 'w process) list"
  outcome :: "py_error + message list"
  final_process :: "'w process"

fun run_from ::
  "runtime \<Rightarrow> 'w env \<Rightarrow> nat \<Rightarrow> target \<Rightarrow> 'w process \<Rightarrow> message list \<Rightarrow> 'w run" where
  "run_from rt env fuel END p ms = \<lparr>visited = [], outcome = Inr ms, final_process = p\<rparr>"
| "run_from rt env 0 (Node n) p ms =
     \<lparr>visited = [], outcome = Inl (GraphRecursionError (recursion_limit rt)), final_process = p\<rparr>"
| "run_from rt env (Suc fuel) (Node n) p ms =
     (case step rt env n p ms of
        (Inl e, p1) \<Rightarrow> \<lparr>visited = [(n, ms, p)], outcome = Inl e, final_process = p1\<rparr>
      | (Inr (t, ms1), p1) \<Rightarrow>
          (let r = run_from rt env fuel t p1 ms1 in r\<lparr>visited := (n, ms, p) # visited r\<rparr>))"

text \<open>\<^verbatim>\<open>build_graph().invoke(...)\<close>: the edge from \<^verbatim>\<open>START\<close> enters the routing node.\<close>

definition graph_invoke ::
  "runtime \<Rightarrow> 'w env \<Rightarrow> 'w process \<Rightarrow> message list \<Rightarrow> 'w run" where
  "graph_invoke rt env p ms =
     run_from rt env (recursion_limit rt) (Node Generate_query_or_respond) p ms"

section \<open>The endpoint\<close>

record question_request =
  question :: string
  include_sources :: "bool option"

record question_response =
  response_question :: string
  answer :: string
  sources :: "source_document list option"

datatype http_exception = HTTPException nat string

definition ask_question ::
  "runtime \<Rightarrow> 'w env \<Rightarrow> 'w process \<Rightarrow> question_request
    \<Rightarrow> (http_exception + question_response) \<times> 'w process" where
  "ask_question rt env p request =
     (let p0 = p\<lparr>retrieved_sources := []\<rparr>;
          result = graph_invoke rt env p0 [HumanMessage (question request)];
          p1 = final_process result
      in case outcome result of
           Inl e \<Rightarrow> (Inl (HTTPException 500 (''An error occurred: '' @ error_str e)), p1)
         | Inr ms \<Rightarrow>
             (case ms of
                [] \<Rightarrow> (Inl (HTTPException 500 (''An error occurred: '' @ error_str IndexError)), p1)
              | m0 # rest \<Rightarrow>
                  (let final_response = content (last ms) in
                   if final_response = [] then
                     (Inl (HTTPException 500
                        ''Failed to generate a response. Please try rephrasing your question.''), p1)
                   else
                     (Inr \<lparr>response_question = question request,
                           answer = final_response,
                           sources = (if include_sources request = Some True
                                         \<and> retrieved_sources p1 \<noteq> []
                                      then Some (retrieved_sources p1) else None)\<rparr>, p1))))"

section \<open>The page number as specified\<close>


section \<open>Concrete scenarios\<close>

text \<open>
  Collaborators with fixed answers, used to run the model on concrete requests. The world
  is the number of grading calls made so far; \<open>verdict\<close> gives the grader's answer at each
  of them, and \<open>routing\<close> is the routing model's answer.
\<close>

definition demo_docs :: "document list" where
  "demo_docs =
     [\<lparr>page_content = ''a^2 + b^2 = c^2'', metadata_source_file = Some ''math.pdf'',
       metadata_page = Some (PyInt 12)\<rparr>,
      \<lparr>page_content = replicate 201 CHR ''x'', metadata_source_file = None,
       metadata_page = Some (PyFloat (Finite (7 / 2)))\<rparr>]"

definition nan_docs :: "document list" where
  "nan_docs =
     [\<lparr>page_content = ''text'', metadata_source_file = Some ''math.pdf'',
       metadata_page = Some (PyFloat NaN)\<rparr>]"

definition demo_str :: "pyval \<Rightarrow> string" where
  "demo_str v = (case v of PyInt i \<Rightarrow> str_nat (nat i) | PyStr s \<Rightarrow> s | _ \<Rightarrow> ''?'')"

definition demo_env :: "document list \<Rightarrow> string \<times> string list \<Rightarrow> (nat \<Rightarrow> string) \<Rightarrow> nat env" where
  "demo_env docs routing verdict =
     \<lparr>retriever_invoke = (\<lambda>w query. (Inr docs, w)),
      llm_bind_tools_invoke = (\<lambda>w ms. (Inr routing, w)),
      grader_llm_invoke = (\<lambda>w prompt. (Inr (verdict w), Suc w)),
      llm_invoke = (\<lambda>w prompt. (Inr ''model text'', w)),
      py_str = demo_str\<rparr>"

definition demo_runtime :: runtime where
  "demo_runtime = \<lparr>recursion_limit = 25, handle_tool_errors = True\<rparr>"

definition demo_process :: "nat process" where
  "demo_process = \<lparr>retrieved_sources = [], world = 0\<rparr>"

definition demo_request :: question_request where
  "demo_request = \<lparr>question = ''What is the Pythagorean theorem?'', include_sources = Some True\<rparr>"

text \<open>What the tool returns for \<open>demo_docs\<close>, and the sources it records.\<close>

definition demo_body :: string where
  "demo_body =
     ''[Source: math.pdf, Page: 12]'' @ newline @ ''a^2 + b^2 = c^2'' @ newline @ newline
     @ ''---'' @ newline @ newline @ ''[Source: Unknown, Page: ?]'' @ newline
     @ replicate 201 CHR ''x''"

definition demo_sources :: "source_document list" where
  "demo_sources =
     [\<lparr>source_file = ''math.pdf'', page = 12, content_preview = ''a^2 + b^2 = c^2''\<rparr>,
      \<lparr>source_file = ''Unknown'', page = 3,
       content_preview = replicate 200 CHR ''x'' @ ''...''\<rparr>]"

text \<open>
  The routing model always asks for a retrieval and the grader never answers
  \<^verbatim>\<open>"yes"\<close>; and a routing model whose call times out.
\<close>

definition never_relevant_env :: "nat env" where
  "never_relevant_env = demo_env demo_docs ('''', [''q'']) (\<lambda>n. ''no'')"


definition short_runtime :: runtime where
  "short_runtime = \<lparr>recursion_limit = 3, handle_tool_errors = True\<rparr>"


section \<open>The retriever tool: previews and page numbers\<close>

lemma retrieve_loop_previews:
  "retrieve_loop str docs srcs results = (Inr out, srcs') \<Longrightarrow>
   map content_preview srcs' =
     map content_preview srcs @ map (\<lambda>d. content_preview_of (page_content d)) docs"
  by (induction docs arbitrary: srcs results) (auto simp: Let_def split: sum.splits)

lemma retrieve_from_books_previews:
  assumes "retriever_invoke env (world p) query = (Inr docs, w)"
    and "retrieve_from_books env p query = (Inr text, p')"
  shows "map content_preview (retrieved_sources p') =
         map (\<lambda>d. content_preview_of (page_content d)) docs"
  using assms retrieve_loop_previews[of "py_str env" docs "[]" "[]"]
  by (auto simp: retrieve_from_books_def Let_def split: if_splits sum.splits prod.splits)

lemma demo_retrieve:
  "retrieve_from_books (demo_env demo_docs r v) demo_process ''q'' =
     (Inr (''[Source: math.pdf, Page: 12]'' @ newline @ ''a^2 + b^2 = c^2'' @ newline @ newline
           @ ''---'' @ newline @ newline @ ''[Source: Unknown, Page: ?]'' @ newline
           @ replicate 201 CHR ''x''),
      \<lparr>retrieved_sources =
         [\<lparr>source_file = ''math.pdf'', page = 12, content_preview = ''a^2 + b^2 = c^2''\<rparr>,
          \<lparr>source_file = ''Unknown'', page = 3,
           content_preview = replicate 200 CHR ''x'' @ ''...''\<rparr>],
       world = 0\<rparr>)"
  by (simp add: retrieve_from_books_def demo_env_def demo_docs_def demo_process_def demo_str_def
      content_preview_of_def trunc_def Let_def page_of_def)

text \<open>
  Claim C8. When a retrieval call returns, the previews stored in \<^verbatim>\<open>retrieved_sources\<close>
  are, document by document and in order, the content itself when it has at most 200
  characters, and otherwise its first 200 characters followed by the marker \<^verbatim>\<open>...\<close>.
\<close>

theorem preview_is_capped_prefix:
  assumes "retriever_invoke env (world p) query = (Inr docs, w)"
    and "retrieve_from_books env p query = (Inr text, p')"
  shows "map content_preview (retrieved_sources p') =
         map (\<lambda>d. if length (page_content d) \<le> 200 then page_content d
                   else take 200 (page_content d) @ ''...'') docs"
  using retrieve_from_books_previews[OF assms]
  by (simp add: content_preview_of_def not_less[symmetric] cong: if_cong)

theorem preview_is_capped_prefix_witness:
  "retriever_invoke (demo_env demo_docs ('''', [''q'']) (\<lambda>n. ''no'')) (world demo_process) ''q''
     = (Inr demo_docs, 0)
   \<and> map content_preview
        (retrieved_sources (snd (retrieve_from_books
           (demo_env demo_docs ('''', [''q'']) (\<lambda>n. ''no'')) demo_process ''q'')))
     = [''a^2 + b^2 = c^2'', replicate 200 CHR ''x'' @ ''...'']"
proof -
  have h1: "retriever_invoke (demo_env demo_docs ('''', [''q'']) (\<lambda>n. ''no'')) (world demo_process) ''q''
     = (Inr demo_docs, 0)"
    by (simp add: demo_env_def demo_process_def)
  note h2 = demo_retrieve[of "('''', [''q''])" "\<lambda>n. ''no''"]
  from preview_is_capped_prefix[OF h1 h2] h1 h2 show ?thesis
    by (simp add: demo_docs_def)
qed

lemma page_int_not_a_number:
  "\<not> isinstance_int_float v \<Longrightarrow> page_int v = Inr 0"
  by (cases v) simp_all





text \<open>
  Outside the values a JSON payload can hold, \<^verbatim>\<open>int(page)\<close> raises: on the float NaN the
  tool ends with \<^verbatim>\<open>ValueError\<close>.
\<close>

lemma nan_page_raises:
  "fst (retrieve_from_books (demo_env nan_docs ('''', [''q'']) (\<lambda>n. ''no'')) demo_process ''q'')
     = Inl (PyError ''ValueError'' ''cannot convert float NaN to integer'')"
  by (simp add: retrieve_from_books_def demo_env_def nan_docs_def demo_process_def Let_def page_of_def)

section \<open>The grader\<close>

text \<open>
  Claim C2, as amended. The grader compares \<^verbatim>\<open>binary_score\<close> with \<^verbatim>\<open>"yes"\<close> and nothing
  else: whenever the grading call returns a score, \<^verbatim>\<open>"yes"\<close> selects \<^verbatim>\<open>generate_answer\<close>
  and every other string selects \<^verbatim>\<open>rewrite_question\<close>; no score makes the call fail.
\<close>

theorem grade_compares_with_yes:
  assumes "grade_prompt ms = Inr prompt"
    and "grader_llm_invoke env (world p) prompt = (Inr binary_score, w)"
  shows "grade_documents env p ms =
           (Inr (if binary_score = ''yes'' then Generate_answer else Rewrite_question),
            p\<lparr>world := w\<rparr>)"
  using assms by (simp add: grade_documents_def)

theorem grade_compares_with_yes_witness:
  "grade_prompt [HumanMessage ''q'', ToolMessage ''ctx''] = Inr (GRADE_PROMPT ''q'' ''ctx'')
   \<and> grader_llm_invoke (demo_env demo_docs ('''', [''q'']) (\<lambda>n. ''YES'')) (world demo_process)
        (GRADE_PROMPT ''q'' ''ctx'') = (Inr ''YES'', 1)
   \<and> grade_documents (demo_env demo_docs ('''', [''q'']) (\<lambda>n. ''YES'')) demo_process
        [HumanMessage ''q'', ToolMessage ''ctx'']
      = (Inr Rewrite_question, demo_process\<lparr>world := 1\<rparr>)"
proof -
  have h1: "grade_prompt [HumanMessage ''q'', ToolMessage ''ctx''] = Inr (GRADE_PROMPT ''q'' ''ctx'')"
    by (simp add: grade_prompt_def HumanMessage_def ToolMessage_def Let_def)
  have h2: "grader_llm_invoke (demo_env demo_docs ('''', [''q'']) (\<lambda>n. ''YES'')) (world demo_process)
        (GRADE_PROMPT ''q'' ''ctx'') = (Inr ''YES'', 1)"
    by (simp add: demo_env_def demo_process_def)
  from grade_compares_with_yes[OF h1 h2] h1 h2 show ?thesis by simp
qed

text \<open>
  The claim as stated fails: the score \<^verbatim>\<open>"maybe"\<close> is not reported as an error, it is
  taken as the verdict "irrelevant".
\<close>

theorem grade_maybe_counterexample:
  "fst (grade_documents (demo_env demo_docs ('''', [''q'']) (\<lambda>n. ''maybe'')) demo_process
          [HumanMessage ''q'', ToolMessage ''ctx'']) = Inr Rewrite_question"
  by (simp add: grade_documents_def grade_prompt_def demo_env_def demo_process_def Let_def)

section \<open>Single transitions of the graph\<close>

lemma run_from_pos:
  "0 < fuel \<Longrightarrow>
   run_from rt env fuel (Node n) p ms =
     (case step rt env n p ms of
        (Inl e, p1) \<Rightarrow> \<lparr>visited = [(n, ms, p)], outcome = Inl e, final_process = p1\<rparr>
      | (Inr (t, ms1), p1) \<Rightarrow>
          (let r = run_from rt env (fuel - 1) t p1 ms1 in r\<lparr>visited := (n, ms, p) # visited r\<rparr>))"
  by (cases fuel) (simp_all split: prod.splits sum.splits)

text \<open>
  Claim C7. A similarity search that returns no documents is not an error: the tool
  returns the marker text and leaves the list of sources empty, the retrieve node appends
  the marker as a tool-result turn, and the transition out of the node is decided by
  grading that turn against the first turn, so the request goes on to the grader.
\<close>

theorem empty_retrieval_is_graded:
  assumes "ms \<noteq> []" and "role (last ms) = AI" and "tool_calls (last ms) = [query]"
    and "retriever_invoke env (world p) query = (Inr [], w)"
  shows "retrieve_from_books env p query =
           (Inr ''No relevant information found in the books.'', \<lparr>retrieved_sources = [], world = w\<rparr>)
       \<and> node_update rt env Retrieve p ms =
           (Inr [ToolMessage ''No relevant information found in the books.''],
            \<lparr>retrieved_sources = [], world = w\<rparr>)
       \<and> grade_prompt (ms @ [ToolMessage ''No relevant information found in the books.'']) =
           Inr (GRADE_PROMPT (content (hd ms)) ''No relevant information found in the books.'')
       \<and> step rt env Retrieve p ms =
           (case grade_documents env \<lparr>retrieved_sources = [], world = w\<rparr>
                   (ms @ [ToolMessage ''No relevant information found in the books.'']) of
              (Inl e, p2) \<Rightarrow> (Inl e, p2)
            | (Inr n, p2) \<Rightarrow>
                (Inr (Node n, ms @ [ToolMessage ''No relevant information found in the books.'']), p2))"
proof -
  have r: "retrieve_from_books env p query =
           (Inr ''No relevant information found in the books.'', \<lparr>retrieved_sources = [], world = w\<rparr>)"
    using assms(4) by (simp add: retrieve_from_books_def NO_RESULTS_def Let_def)
  have n: "node_update rt env Retrieve p ms =
           (Inr [ToolMessage ''No relevant information found in the books.''],
            \<lparr>retrieved_sources = [], world = w\<rparr>)"
    using assms(1-3) r by (cases ms) (simp_all add: tool_node_def)
  have g: "grade_prompt (ms @ [ToolMessage ''No relevant information found in the books.'']) =
           Inr (GRADE_PROMPT (content (hd ms)) ''No relevant information found in the books.'')"
    using assms(1) by (cases ms) (simp_all add: grade_prompt_def ToolMessage_def Let_def)
  have s: "step rt env Retrieve p ms =
           (case grade_documents env \<lparr>retrieved_sources = [], world = w\<rparr>
                   (ms @ [ToolMessage ''No relevant information found in the books.'']) of
              (Inl e, p2) \<Rightarrow> (Inl e, p2)
            | (Inr n, p2) \<Rightarrow>
                (Inr (Node n, ms @ [ToolMessage ''No relevant information found in the books.'']), p2))"
    unfolding step_def n by (simp split: prod.splits sum.splits)
  from r n g s show ?thesis by blast
qed

theorem empty_retrieval_is_graded_witness:
  "retriever_invoke (demo_env [] ('''', [''q'']) (\<lambda>n. ''no'')) (world demo_process) ''q'' = (Inr [], 0)
   \<and> step demo_runtime (demo_env [] ('''', [''q'']) (\<lambda>n. ''no'')) Retrieve demo_process
        [HumanMessage ''hi'', AIMessage '''' [''q'']]
      = (Inr (Node Rewrite_question,
              [HumanMessage ''hi'', AIMessage '''' [''q''],
               ToolMessage ''No relevant information found in the books.'']),
         \<lparr>retrieved_sources = [], world = 1\<rparr>)"
proof -
  have h1: "[HumanMessage ''hi'', AIMessage '''' [''q'']] \<noteq> []" by simp
  have h2: "role (last [HumanMessage ''hi'', AIMessage '''' [''q'']]) = AI"
    by (simp add: AIMessage_def)
  have h3: "tool_calls (last [HumanMessage ''hi'', AIMessage '''' [''q'']]) = [''q'']"
    by (simp add: AIMessage_def)
  have h4: "retriever_invoke (demo_env [] ('''', [''q'']) (\<lambda>n. ''no'')) (world demo_process) ''q''
              = (Inr [], 0)"
    by (simp add: demo_env_def demo_process_def)
  have g: "grade_documents (demo_env [] ('''', [''q'']) (\<lambda>n. ''no'')) \<lparr>retrieved_sources = [], world = 0\<rparr>
             [HumanMessage ''hi'', AIMessage '''' [''q''],
              ToolMessage ''No relevant information found in the books.'']
           = (Inr Rewrite_question, \<lparr>retrieved_sources = [], world = 1\<rparr>)"
    by (simp add: grade_documents_def grade_prompt_def demo_env_def Let_def)
  from empty_retrieval_is_graded[OF h1 h2 h3 h4, of demo_runtime] h4 g show ?thesis
    by simp
qed

section \<open>Answering directly\<close>

text \<open>
  Claim C5. When the routing model answers the question without a tool call, the graph
  executes the routing node only and ends: the retrieve node is never entered, the only
  call to the outside is the routing call, the list of sources stays empty, and the
  response (given unless the answer text is empty) carries no sources, also when
  \<^verbatim>\<open>include_sources\<close> is true.
\<close>

theorem direct_response_has_no_retrieval:
  assumes "llm_bind_tools_invoke env (world p) [HumanMessage (question request)] = (Inr (c, []), w)"
    and "0 < recursion_limit rt"
  shows "graph_invoke rt env (p\<lparr>retrieved_sources := []\<rparr>) [HumanMessage (question request)] =
           \<lparr>visited = [(Generate_query_or_respond, [HumanMessage (question request)],
                        p\<lparr>retrieved_sources := []\<rparr>)],
            outcome = Inr [HumanMessage (question request), AIMessage c []],
            final_process = \<lparr>retrieved_sources = [], world = w\<rparr>\<rparr>
       \<and> ask_question rt env p request =
           (if c = [] then
              Inl (HTTPException 500
                     ''Failed to generate a response. Please try rephrasing your question.'')
            else Inr \<lparr>response_question = question request, answer = c, sources = None\<rparr>,
            \<lparr>retrieved_sources = [], world = w\<rparr>)"
proof -
  obtain k where k: "recursion_limit rt = Suc k"
    using assms(2) by (cases "recursion_limit rt") auto
  have st: "step rt env Generate_query_or_respond (p\<lparr>retrieved_sources := []\<rparr>)
              [HumanMessage (question request)] =
            (Inr (END, [HumanMessage (question request), AIMessage c []]),
             \<lparr>retrieved_sources = [], world = w\<rparr>)"
    using assms(1)
    by (simp add: step_def generate_query_or_respond_def tools_condition_def AIMessage_def)
  have g: "graph_invoke rt env (p\<lparr>retrieved_sources := []\<rparr>) [HumanMessage (question request)] =
           \<lparr>visited = [(Generate_query_or_respond, [HumanMessage (question request)],
                        p\<lparr>retrieved_sources := []\<rparr>)],
            outcome = Inr [HumanMessage (question request), AIMessage c []],
            final_process = \<lparr>retrieved_sources = [], world = w\<rparr>\<rparr>"
    by (simp add: graph_invoke_def k st)
  show ?thesis
    unfolding ask_question_def Let_def g
    by (simp add: g AIMessage_def)
qed

theorem direct_response_witness:
  "llm_bind_tools_invoke (demo_env demo_docs (''Hello!'', []) (\<lambda>n. ''no'')) (world demo_process)
     [HumanMessage (question \<lparr>question = ''hello'', include_sources = Some True\<rparr>)]
     = (Inr (''Hello!'', []), 0)
   \<and> 0 < recursion_limit demo_runtime
   \<and> ask_question demo_runtime (demo_env demo_docs (''Hello!'', []) (\<lambda>n. ''no'')) demo_process
        \<lparr>question = ''hello'', include_sources = Some True\<rparr>
      = (Inr \<lparr>response_question = ''hello'', answer = ''Hello!'', sources = None\<rparr>,
         \<lparr>retrieved_sources = [], world = 0\<rparr>)"
proof -
  have h1: "llm_bind_tools_invoke (demo_env demo_docs (''Hello!'', []) (\<lambda>n. ''no'')) (world demo_process)
     [HumanMessage (question \<lparr>question = ''hello'', include_sources = Some True\<rparr>)]
     = (Inr (''Hello!'', []), 0)"
    by (simp add: demo_env_def demo_process_def)
  have h2: "0 < recursion_limit demo_runtime"
    by (simp add: demo_runtime_def)
  from direct_response_has_no_retrieval[OF h1 h2] h1 h2 show ?thesis
    by simp
qed

section \<open>The global list of sources\<close>

lemma demo_yes_run:
  "ask_question demo_runtime (demo_env demo_docs ('''', [''q'']) (\<lambda>n. ''yes'')) demo_process
     demo_request =
   (Inr \<lparr>response_question = ''What is the Pythagorean theorem?'', answer = ''model text'',
         sources = Some
           [\<lparr>source_file = ''math.pdf'', page = 12, content_preview = ''a^2 + b^2 = c^2''\<rparr>,
            \<lparr>source_file = ''Unknown'', page = 3,
             content_preview = replicate 200 CHR ''x'' @ ''...''\<rparr>]\<rparr>,
    \<lparr>retrieved_sources =
         [\<lparr>source_file = ''math.pdf'', page = 12, content_preview = ''a^2 + b^2 = c^2''\<rparr>,
          \<lparr>source_file = ''Unknown'', page = 3,
           content_preview = replicate 200 CHR ''x'' @ ''...''\<rparr>],
     world = 1\<rparr>)"
proof -
  let ?env = "demo_env demo_docs ('''', [''q'']) (\<lambda>n. ''yes'')"
  let ?q = "HumanMessage ''What is the Pythagorean theorem?''"
  let ?srcs = "[\<lparr>source_file = ''math.pdf'', page = 12, content_preview = ''a^2 + b^2 = c^2''\<rparr>,
          \<lparr>source_file = ''Unknown'', page = 3,
           content_preview = replicate 200 CHR ''x'' @ ''...''\<rparr>]"
  obtain body where r: "retrieve_from_books ?env demo_process ''q'' =
      (Inr body, \<lparr>retrieved_sources = ?srcs, world = 0\<rparr>)"
    using demo_retrieve[of "('''', [''q''])" "\<lambda>n. ''yes''"] by simp
  have s1: "step demo_runtime ?env Generate_query_or_respond demo_process [?q] =
         (Inr (Node Retrieve, [?q, AIMessage '''' [''q'']]), demo_process)"
    by (simp add: step_def generate_query_or_respond_def tools_condition_def AIMessage_def
        demo_env_def demo_process_def)
  have s2: "step demo_runtime ?env Retrieve demo_process [?q, AIMessage '''' [''q'']] =
         (Inr (Node Generate_answer, [?q, AIMessage '''' [''q''], ToolMessage body]),
          \<lparr>retrieved_sources = ?srcs, world = Suc 0\<rparr>)"
    using r
    by (simp add: step_def tool_node_def AIMessage_def grade_documents_def grade_prompt_def Let_def)
       (simp add: demo_env_def)
  have s3: "step demo_runtime ?env Generate_answer \<lparr>retrieved_sources = ?srcs, world = Suc 0\<rparr>
           [?q, AIMessage '''' [''q''], ToolMessage body] =
         (Inr (END, [?q, AIMessage '''' [''q''], ToolMessage body, AIMessage ''model text'' []]),
          \<lparr>retrieved_sources = ?srcs, world = Suc 0\<rparr>)"
    by (simp add: step_def generate_answer_def generate_prompt_def Let_def)
       (simp add: demo_env_def)
  have p0: "demo_process\<lparr>retrieved_sources := []\<rparr> = demo_process"
    by (simp add: demo_process_def)
  have g: "graph_invoke demo_runtime ?env demo_process [?q] =
     \<lparr>visited = [(Generate_query_or_respond, [?q], demo_process),
                 (Retrieve, [?q, AIMessage '''' [''q'']], demo_process),
                 (Generate_answer, [?q, AIMessage '''' [''q''], ToolMessage body],
                  \<lparr>retrieved_sources = ?srcs, world = Suc 0\<rparr>)],
      outcome = Inr [?q, AIMessage '''' [''q''], ToolMessage body, AIMessage ''model text'' []],
      final_process = \<lparr>retrieved_sources = ?srcs, world = Suc 0\<rparr>\<rparr>"
  proof -
    have rl: "recursion_limit demo_runtime = 25"
      by (simp add: demo_runtime_def)
    show ?thesis
      by (simp add: graph_invoke_def rl run_from_pos s1 s2 s3 Let_def)
  qed
  show ?thesis
    unfolding ask_question_def demo_request_def Let_def
    by (simp add: p0 g AIMessage_def)
qed

text \<open>
  Claim C3, as amended. \<^verbatim>\<open>retrieved_sources\<close> is a global of the process, not a list of
  the request. The endpoint empties it before it runs the graph and the tool empties it
  before every search, so a request handled after another one gives the same response
  and leaves the same state whatever the list held when it started, and so does every
  retrieval call: no entry left by an earlier request reaches a later response.
\<close>

theorem sources_list_is_reset:
  "ask_question rt env (p\<lparr>retrieved_sources := xs\<rparr>) request = ask_question rt env p request
   \<and> retrieve_from_books env (p\<lparr>retrieved_sources := xs\<rparr>) query = retrieve_from_books env p query"
  by (simp add: ask_question_def retrieve_from_books_def)

text \<open>
  The claim as stated fails: the list is not scoped to the request. After a request is
  answered its entries are still in the process state, where the next request finds them.
\<close>

theorem sources_outlive_request_counterexample:
  "map source_file (retrieved_sources (snd (ask_question demo_runtime
       (demo_env demo_docs ('''', [''q'']) (\<lambda>n. ''yes'')) demo_process demo_request)))
     = [''math.pdf'', ''Unknown'']"
  by (simp add: demo_yes_run)

section \<open>Where each node can go\<close>


lemma step_appends:
  "step rt env n p ms = (Inr (t, ms1), p1) \<Longrightarrow> \<exists>upd. ms1 = ms @ upd"
  by (auto simp: step_def split: prod.splits sum.splits)

lemma tools_condition_snoc:
  "tools_condition (ms @ [m]) =
     (if role m = AI \<and> tool_calls m \<noteq> [] then Inr (Node Retrieve) else Inr END)"
  by (cases ms) (simp_all add: tools_condition_def)

lemma step_route:
  assumes "step rt env Generate_query_or_respond p ms = (Inr (t, ms1), p1)"
  shows "(\<exists>c tcs. ms1 = ms @ [AIMessage c tcs]) \<and>
         (t = END \<or> (t = Node Retrieve \<and> role (last ms1) = AI \<and> tool_calls (last ms1) \<noteq> []))"
  using assms
  by (auto simp: step_def generate_query_or_respond_def tools_condition_snoc
      split: prod.splits sum.splits if_splits)

lemma step_retrieve:
  assumes "step rt env Retrieve p ms = (Inr (t, ms1), p1)"
  shows "(t = Node Generate_answer \<or> t = Node Rewrite_question) \<and>
         (\<exists>upd pm. tool_node rt env p ms = (Inr upd, pm) \<and> ms1 = ms @ upd)"
  using assms
  by (auto simp: step_def grade_documents_def split: prod.splits sum.splits if_splits)

lemma step_rewrite:
  assumes "step rt env Rewrite_question p ms = (Inr (t, ms1), p1)"
  shows "t = Node Generate_query_or_respond \<and> (\<exists>c. ms1 = ms @ [HumanMessage c])"
  using assms
  by (auto simp: step_def rewrite_question_def split: prod.splits sum.splits)

lemma step_generate:
  assumes "step rt env Generate_answer p ms = (Inr (t, ms1), p1)"
  shows "t = END"
  using assms
  by (auto simp: step_def split: prod.splits sum.splits)

section \<open>Runs of the graph\<close>


lemma run_from_length:
  "length (visited (run_from rt env fuel t p ms)) \<le> fuel"
proof (induction fuel arbitrary: t p ms)
  case 0
  then show ?case by (cases t) simp_all
next
  case (Suc fuel)
  show ?case
  proof (cases t)
    case END
    then show ?thesis by simp
  next
    case (Node n)
    then show ?thesis
      using Suc.IH by (auto simp: Let_def split: prod.splits sum.splits)
  qed
qed

lemma run_from_counts:
  "count_list (map fst (visited (run_from rt env fuel t p ms))) Retrieve \<le>
     (case t of END \<Rightarrow> 0
      | Node Generate_query_or_respond \<Rightarrow> (fuel + 1) div 3
      | Node Retrieve \<Rightarrow> (fuel + 2) div 3
      | Node Rewrite_question \<Rightarrow> fuel div 3
      | Node Generate_answer \<Rightarrow> 0)
   \<and> count_list (map fst (visited (run_from rt env fuel t p ms))) Rewrite_question \<le>
     (case t of END \<Rightarrow> 0
      | Node Generate_query_or_respond \<Rightarrow> fuel div 3
      | Node Retrieve \<Rightarrow> (fuel + 1) div 3
      | Node Rewrite_question \<Rightarrow> (fuel + 2) div 3
      | Node Generate_answer \<Rightarrow> 0)"
proof (induction fuel arbitrary: t p ms)
  case 0
  then show ?case by (cases t) (simp_all split: node.splits)
next
  case (Suc fuel)
  show ?case
  proof (cases t)
    case END
    then show ?thesis by simp
  next
    case (Node n)
    show ?thesis
    proof (cases "step rt env n p ms")
      case (Pair res p1)
      show ?thesis
      proof (cases res)
        case (Inl e)
        then show ?thesis using Node Pair by (cases n) simp_all
      next
        case (Inr tm)
        obtain t1 ms1 where tm: "tm = (t1, ms1)" by (cases tm)
        have st: "step rt env n p ms = (Inr (t1, ms1), p1)"
          using Pair Inr tm by simp
        note ih = Suc.IH[of t1 p1 ms1]
        show ?thesis
        proof (cases n)
          case Generate_query_or_respond
          with step_route[of rt env p ms t1 ms1 p1] st
          have "t1 = END \<or> t1 = Node Retrieve" by auto
          then show ?thesis
            using ih Node Generate_query_or_respond st by (auto simp: Let_def)
        next
          case Retrieve
          with step_retrieve[of rt env p ms t1 ms1 p1] st
          have "t1 = Node Generate_answer \<or> t1 = Node Rewrite_question" by auto
          then show ?thesis
            using ih Node Retrieve st by (auto simp: Let_def)
        next
          case Rewrite_question
          with step_rewrite[of rt env p ms t1 ms1 p1] st
          have "t1 = Node Generate_query_or_respond" by auto
          then show ?thesis
            using ih Node Rewrite_question st by (auto simp: Let_def)
        next
          case Generate_answer
          with step_generate[of rt env p ms t1 ms1 p1] st
          have "t1 = END" by auto
          then show ?thesis
            using Node Generate_answer st by (auto simp: Let_def)
        qed
      qed
    qed
  qed
qed


lemma run_from_prefix:
  "((n, s, pa) \<in> set (visited (run_from rt env fuel t p ms)) \<longrightarrow> prefix ms s)
   \<and> (outcome (run_from rt env fuel t p ms) = Inr ms' \<longrightarrow> prefix ms ms')"
proof (induction fuel arbitrary: t p ms)
  case 0
  then show ?case by (cases t) simp_all
next
  case (Suc fuel)
  show ?case
  proof (cases t)
    case END
    then show ?thesis by simp
  next
    case (Node n0)
    show ?thesis
    proof (cases "step rt env n0 p ms")
      case (Pair res p1)
      show ?thesis
      proof (cases res)
        case (Inl e)
        then show ?thesis using Node Pair by simp
      next
        case (Inr tm)
        obtain t1 ms1 where tm: "tm = (t1, ms1)" by (cases tm)
        have st: "step rt env n0 p ms = (Inr (t1, ms1), p1)"
          using Pair Inr tm by simp
        from step_appends[OF st] have pre: "prefix ms ms1" by auto
        from Suc.IH[of t1 p1 ms1] pre show ?thesis
          using Node st by (auto simp: Let_def dest: prefix_order.trans)
      qed
    qed
  qed
qed


lemma run_from_last:
  "outcome (run_from rt env fuel t p ms) = Inr ms' \<Longrightarrow>
   visited (run_from rt env fuel t p ms) \<noteq> [] \<Longrightarrow>
   step rt env (fst (last (visited (run_from rt env fuel t p ms))))
          (snd (snd (last (visited (run_from rt env fuel t p ms)))))
          (fst (snd (last (visited (run_from rt env fuel t p ms)))))
     = (Inr (END, ms'), final_process (run_from rt env fuel t p ms))"
proof (induction fuel arbitrary: t p ms)
  case 0
  then show ?case by (cases t) simp_all
next
  case (Suc fuel)
  show ?case
  proof (cases t)
    case END
    then show ?thesis using Suc.prems by simp
  next
    case (Node n0)
    show ?thesis
    proof (cases "step rt env n0 p ms")
      case (Pair res p1)
      show ?thesis
      proof (cases res)
        case (Inl e)
        then show ?thesis using Node Pair Suc.prems by simp
      next
        case (Inr tm)
        obtain t1 ms1 where tm: "tm = (t1, ms1)" by (cases tm)
        have st: "step rt env n0 p ms = (Inr (t1, ms1), p1)"
          using Pair Inr tm by simp
        let ?r = "run_from rt env fuel t1 p1 ms1"
        have vis: "visited (run_from rt env (Suc fuel) t p ms) = (n0, ms, p) # visited ?r"
          and out: "outcome (run_from rt env (Suc fuel) t p ms) = outcome ?r"
          and fin: "final_process (run_from rt env (Suc fuel) t p ms) = final_process ?r"
          using Node st by (simp_all add: Let_def)
        show ?thesis
        proof (cases "visited ?r = []")
          case True
          then have "t1 = END"
            using Suc.prems(1) out by (cases "(rt, env, fuel, t1, p1, ms1)" rule: run_from.cases)
              (auto simp: Let_def split: prod.splits sum.splits)
          then show ?thesis using vis out fin st Suc.prems(1) True by simp
        next
          case False
          from Suc.IH[OF _ False] Suc.prems(1) out
          show ?thesis using vis fin False by simp
        qed
      qed
    qed
  qed
qed

lemma run_from_error:
  "outcome (run_from rt env fuel t p ms) = Inl e \<Longrightarrow>
   e = GraphRecursionError (recursion_limit rt) \<or>
   (\<exists>n s pa pb. (n, s, pa) \<in> set (visited (run_from rt env fuel t p ms)) \<and>
                 step rt env n pa s = (Inl e, pb))"
proof (induction fuel arbitrary: t p ms)
  case 0
  then show ?case by (cases t) simp_all
next
  case (Suc fuel)
  show ?case
  proof (cases t)
    case END
    then show ?thesis using Suc.prems by simp
  next
    case (Node n0)
    show ?thesis
    proof (cases "step rt env n0 p ms")
      case (Pair res p1)
      show ?thesis
      proof (cases res)
        case (Inl e0)
        then have "e0 = e" using Node Pair Suc.prems by simp
        then show ?thesis using Node Pair Inl by auto
      next
        case (Inr tm)
        obtain t1 ms1 where tm: "tm = (t1, ms1)" by (cases tm)
        have st: "step rt env n0 p ms = (Inr (t1, ms1), p1)"
          using Pair Inr tm by simp
        have "outcome (run_from rt env fuel t1 p1 ms1) = Inl e"
          using Suc.prems Node st by (simp add: Let_def)
        from Suc.IH[OF this] show ?thesis
          using Node st by (auto simp: Let_def)
      qed
    qed
  qed
qed


lemma step_rewrite_call:
  assumes "step rt env Rewrite_question p ms = (Inr (t, ms1), p1)"
  shows "ms \<noteq> [] \<and> t = Node Generate_query_or_respond \<and>
         (\<exists>c. ms1 = ms @ [HumanMessage c] \<and>
              llm_invoke env (world p) (REWRITE_PROMPT (content (hd ms))) = (Inr c, world p1))"
  using assms
  by (cases ms)
     (auto simp: step_def rewrite_question_def rewrite_prompt_def Let_def
       split: prod.splits sum.splits)



lemma graph_invoke_done:
  assumes "outcome (graph_invoke rt env p ms) = Inr ms'"
  shows "visited (graph_invoke rt env p ms) \<noteq> [] \<and>
         (fst (last (visited (graph_invoke rt env p ms))) = Generate_query_or_respond
          \<or> fst (last (visited (graph_invoke rt env p ms))) = Generate_answer)"
proof -
  let ?r = "run_from rt env (recursion_limit rt) (Node Generate_query_or_respond) p ms"
  have out: "outcome ?r = Inr ms'" using assms by (simp add: graph_invoke_def)
  have ne: "visited ?r \<noteq> []"
    using out
    by (cases "recursion_limit rt")
       (auto simp: GraphRecursionError_def Let_def split: prod.splits sum.splits)
  obtain n s pa where l: "last (visited ?r) = (n, s, pa)" by (cases "last (visited ?r)")
  from run_from_last[OF out ne] l
  have st: "step rt env n pa s = (Inr (END, ms'), final_process ?r)" by simp
  have "n = Generate_query_or_respond \<or> n = Generate_answer"
  proof (cases n)
    case Retrieve
    with step_retrieve[of rt env pa s END ms'] st show ?thesis by auto
  next
    case Rewrite_question
    with step_rewrite[of rt env pa s END ms'] st show ?thesis by auto
  qed simp_all
  then show ?thesis using ne l by (simp add: graph_invoke_def)
qed

section \<open>The scenarios, step by step\<close>

lemma demo_retrieve_any:
  "retrieve_from_books (demo_env demo_docs r v) p ''q'' =
     (Inr demo_body, \<lparr>retrieved_sources = demo_sources, world = world p\<rparr>)"
  by (simp add: retrieve_from_books_def demo_env_def demo_docs_def demo_str_def
      demo_body_def demo_sources_def content_preview_of_def trunc_def Let_def page_of_def)

lemma never_relevant_route:
  "step rt never_relevant_env Generate_query_or_respond p ms =
     (Inr (Node Retrieve, ms @ [AIMessage '''' [''q'']]), p)"
  by (simp add: step_def generate_query_or_respond_def tools_condition_snoc AIMessage_def
      never_relevant_env_def demo_env_def)

lemma never_relevant_retrieve:
  assumes "ms \<noteq> []" and "last ms = AIMessage '''' [''q'']"
  shows "step rt never_relevant_env Retrieve p ms =
     (Inr (Node Rewrite_question, ms @ [ToolMessage demo_body]),
      \<lparr>retrieved_sources = demo_sources, world = Suc (world p)\<rparr>)"
proof -
  have t: "tool_node rt never_relevant_env p ms =
      (Inr [ToolMessage demo_body], \<lparr>retrieved_sources = demo_sources, world = world p\<rparr>)"
    using assms demo_retrieve_any[of "('''', [''q''])" "\<lambda>n. ''no''" p]
    by (cases ms) (simp_all add: tool_node_def AIMessage_def never_relevant_env_def)
  have g: "grade_documents never_relevant_env \<lparr>retrieved_sources = demo_sources, world = world p\<rparr>
             (ms @ [ToolMessage demo_body]) =
           (Inr Rewrite_question, \<lparr>retrieved_sources = demo_sources, world = Suc (world p)\<rparr>)"
    using assms(1)
    by (cases ms)
       (simp_all add: grade_documents_def grade_prompt_def Let_def never_relevant_env_def demo_env_def)
  show ?thesis
    by (simp add: step_def t g)
qed

lemma never_relevant_rewrite:
  assumes "ms \<noteq> []"
  shows "step rt never_relevant_env Rewrite_question p ms =
     (Inr (Node Generate_query_or_respond, ms @ [HumanMessage ''model text'']), p)"
  using assms
  by (cases ms)
     (simp_all add: step_def rewrite_question_def rewrite_prompt_def Let_def
       never_relevant_env_def demo_env_def)

lemma never_relevant_run:
  "ms \<noteq> [] \<Longrightarrow>
   (outcome (run_from rt never_relevant_env fuel (Node Generate_query_or_respond) p ms)
      = Inl (GraphRecursionError (recursion_limit rt))
    \<and> count_list (map fst (visited
         (run_from rt never_relevant_env fuel (Node Generate_query_or_respond) p ms)))
         Rewrite_question = fuel div 3
    \<and> count_list (map fst (visited
         (run_from rt never_relevant_env fuel (Node Generate_query_or_respond) p ms)))
         Generate_answer = 0)
   \<and> (last ms = AIMessage '''' [''q''] \<longrightarrow>
      outcome (run_from rt never_relevant_env fuel (Node Retrieve) p ms)
        = Inl (GraphRecursionError (recursion_limit rt))
      \<and> count_list (map fst (visited (run_from rt never_relevant_env fuel (Node Retrieve) p ms)))
           Rewrite_question = (fuel + 1) div 3
      \<and> count_list (map fst (visited (run_from rt never_relevant_env fuel (Node Retrieve) p ms)))
           Generate_answer = 0)
   \<and> (outcome (run_from rt never_relevant_env fuel (Node Rewrite_question) p ms)
        = Inl (GraphRecursionError (recursion_limit rt))
      \<and> count_list (map fst (visited (run_from rt never_relevant_env fuel (Node Rewrite_question) p ms)))
           Rewrite_question = (fuel + 2) div 3
      \<and> count_list (map fst (visited (run_from rt never_relevant_env fuel (Node Rewrite_question) p ms)))
           Generate_answer = 0)"
proof (induction fuel arbitrary: p ms)
  case 0
  then show ?case by simp
next
  case (Suc fuel)
  have a: "ms @ [AIMessage '''' [''q'']] \<noteq> []" "last (ms @ [AIMessage '''' [''q'']]) = AIMessage '''' [''q'']"
    by simp_all
  have b: "ms @ [ToolMessage demo_body] \<noteq> []" "ms @ [HumanMessage ''model text''] \<noteq> []"
    by simp_all
  note r1 = Suc.IH[OF a(1), of p, THEN conjunct2, THEN conjunct1, rule_format, OF a(2)]
  note r2 = Suc.IH[OF b(1), of "\<lparr>retrieved_sources = demo_sources, world = Suc (world p)\<rparr>",
                   THEN conjunct2, THEN conjunct2]
  note r3 = Suc.IH[OF b(2), of p, THEN conjunct1]
  have "(Suc fuel + 2) div 3 = Suc (fuel div 3)" by simp
  then show ?case
    using Suc.prems r1 r2 r3
    by (simp add: never_relevant_route never_relevant_retrieve never_relevant_rewrite Let_def)
qed

lemma never_relevant_three:
  "graph_invoke short_runtime never_relevant_env demo_process [HumanMessage ''hi''] =
     \<lparr>visited =
        [(Generate_query_or_respond, [HumanMessage ''hi''], demo_process),
         (Retrieve, [HumanMessage ''hi'', AIMessage '''' [''q'']], demo_process),
         (Rewrite_question, [HumanMessage ''hi'', AIMessage '''' [''q''], ToolMessage demo_body],
          \<lparr>retrieved_sources = demo_sources, world = Suc 0\<rparr>)],
      outcome = Inl (GraphRecursionError 3),
      final_process = \<lparr>retrieved_sources = demo_sources, world = Suc 0\<rparr>\<rparr>"
proof -
  have rl: "recursion_limit short_runtime = 3"
    by (simp add: short_runtime_def)
  have w: "world demo_process = 0"
    by (simp add: demo_process_def)
  show ?thesis
    by (simp add: graph_invoke_def rl run_from_pos never_relevant_route never_relevant_retrieve
        never_relevant_rewrite Let_def w)
qed

lemma demo_yes_graph:
  "graph_invoke demo_runtime (demo_env demo_docs ('''', [''q'']) (\<lambda>n. ''yes'')) demo_process
     [HumanMessage ''hi''] =
     \<lparr>visited =
        [(Generate_query_or_respond, [HumanMessage ''hi''], demo_process),
         (Retrieve, [HumanMessage ''hi'', AIMessage '''' [''q'']], demo_process),
         (Generate_answer, [HumanMessage ''hi'', AIMessage '''' [''q''], ToolMessage demo_body],
          \<lparr>retrieved_sources = demo_sources, world = Suc 0\<rparr>)],
      outcome = Inr [HumanMessage ''hi'', AIMessage '''' [''q''], ToolMessage demo_body,
                     AIMessage ''model text'' []],
      final_process = \<lparr>retrieved_sources = demo_sources, world = Suc 0\<rparr>\<rparr>"
proof -
  let ?env = "demo_env demo_docs ('''', [''q'']) (\<lambda>n. ''yes'')"
  let ?q = "HumanMessage ''hi''"
  have s1: "step demo_runtime ?env Generate_query_or_respond demo_process [?q] =
         (Inr (Node Retrieve, [?q, AIMessage '''' [''q'']]), demo_process)"
    by (simp add: step_def generate_query_or_respond_def tools_condition_def AIMessage_def
        demo_env_def demo_process_def)
  have s2: "step demo_runtime ?env Retrieve demo_process [?q, AIMessage '''' [''q'']] =
         (Inr (Node Generate_answer, [?q, AIMessage '''' [''q''], ToolMessage demo_body]),
          \<lparr>retrieved_sources = demo_sources, world = Suc 0\<rparr>)"
    using demo_retrieve_any[of "('''', [''q''])" "\<lambda>n. ''yes''" demo_process]
    by (simp add: step_def tool_node_def AIMessage_def grade_documents_def grade_prompt_def Let_def)
       (simp add: demo_env_def demo_process_def)
  have s3: "step demo_runtime ?env Generate_answer \<lparr>retrieved_sources = demo_sources, world = Suc 0\<rparr>
           [?q, AIMessage '''' [''q''], ToolMessage demo_body] =
         (Inr (END, [?q, AIMessage '''' [''q''], ToolMessage demo_body, AIMessage ''model text'' []]),
          \<lparr>retrieved_sources = demo_sources, world = Suc 0\<rparr>)"
    by (simp add: step_def generate_answer_def generate_prompt_def Let_def)
       (simp add: demo_env_def)
  have rl: "recursion_limit demo_runtime = 25"
    by (simp add: demo_runtime_def)
  show ?thesis
    by (simp add: graph_invoke_def rl run_from_pos s1 s2 s3 Let_def)
qed

section \<open>The rewrite loop\<close>

text \<open>
  Claim C1, as amended. The graph has no cap on rewrite attempts and forces neither an
  answer nor a closing message. The loop is bounded only by the step budget of the graph
  runtime: a run with a budget of \<open>L\<close> node executions executes at most \<open>L\<close> nodes, among
  them at most \<open>L div 3\<close> rewrites and at most \<open>(L + 1) div 3\<close> retrievals, and it ends
  normally only after the routing node (a direct answer) or after the answer node (a
  grade of \<^verbatim>\<open>"yes"\<close>); otherwise it ends with an exception: that of a node execution
  that raised, or \<^verbatim>\<open>GraphRecursionError\<close> when the budget is used up.
\<close>

theorem rewrite_loop_is_bounded_by_step_budget:
  "length (visited (graph_invoke rt env p ms)) \<le> recursion_limit rt
   \<and> count_list (map fst (visited (graph_invoke rt env p ms))) Rewrite_question
        \<le> recursion_limit rt div 3
   \<and> count_list (map fst (visited (graph_invoke rt env p ms))) Retrieve
        \<le> (recursion_limit rt + 1) div 3
   \<and> (outcome (graph_invoke rt env p ms) = Inr ms' \<longrightarrow>
        visited (graph_invoke rt env p ms) \<noteq> [] \<and>
        (fst (last (visited (graph_invoke rt env p ms))) = Generate_query_or_respond
         \<or> fst (last (visited (graph_invoke rt env p ms))) = Generate_answer))
   \<and> (outcome (graph_invoke rt env p ms) = Inl e \<longrightarrow>
        e = GraphRecursionError (recursion_limit rt) \<or>
        (\<exists>n s pa pb. (n, s, pa) \<in> set (visited (graph_invoke rt env p ms)) \<and>
                      step rt env n pa s = (Inl e, pb)))"
  using run_from_length[of rt env "recursion_limit rt" "Node Generate_query_or_respond" p ms]
    run_from_counts[of rt env "recursion_limit rt" "Node Generate_query_or_respond" p ms]
    graph_invoke_done[of rt env p ms ms']
    run_from_error[of rt env "recursion_limit rt" "Node Generate_query_or_respond" p ms e]
  by (simp add: graph_invoke_def)

theorem rewrite_loop_witness:
  "outcome (graph_invoke demo_runtime (demo_env demo_docs ('''', [''q'']) (\<lambda>n. ''yes''))
             demo_process [HumanMessage ''hi''])
     = Inr [HumanMessage ''hi'', AIMessage '''' [''q''], ToolMessage demo_body,
            AIMessage ''model text'' []]
   \<and> fst (last (visited (graph_invoke demo_runtime
             (demo_env demo_docs ('''', [''q'']) (\<lambda>n. ''yes'')) demo_process [HumanMessage ''hi''])))
     = Generate_answer
   \<and> length (visited (graph_invoke demo_runtime
             (demo_env demo_docs ('''', [''q'']) (\<lambda>n. ''yes'')) demo_process [HumanMessage ''hi'']))
     \<le> recursion_limit demo_runtime"
  using rewrite_loop_is_bounded_by_step_budget[of demo_runtime
      "demo_env demo_docs ('''', [''q'']) (\<lambda>n. ''yes'')" demo_process "[HumanMessage ''hi'']"
      "[HumanMessage ''hi'', AIMessage '''' [''q''], ToolMessage demo_body,
        AIMessage ''model text'' []]"]
  by (simp add: demo_yes_graph)

text \<open>
  The claim as stated fails. With a routing model that always retrieves and a grader that
  never answers \<^verbatim>\<open>"yes"\<close>, a run with the budget of 25 node executions rewrites the
  question 8 times, never enters the answer node and does not end normally: it raises
  \<^verbatim>\<open>GraphRecursionError\<close>.
\<close>

theorem no_rewrite_cap_counterexample:
  "outcome (graph_invoke demo_runtime never_relevant_env demo_process [HumanMessage ''hi''])
     = Inl (GraphRecursionError 25)
   \<and> count_list (map fst (visited
        (graph_invoke demo_runtime never_relevant_env demo_process [HumanMessage ''hi''])))
        Rewrite_question = 8
   \<and> count_list (map fst (visited
        (graph_invoke demo_runtime never_relevant_env demo_process [HumanMessage ''hi''])))
        Generate_answer = 0"
proof -
  have rl: "recursion_limit demo_runtime = 25"
    by (simp add: demo_runtime_def)
  have ne: "[HumanMessage ''hi''] \<noteq> []" by simp
  from never_relevant_run[OF ne, of demo_runtime 25 demo_process, THEN conjunct1]
  show ?thesis
    by (simp add: graph_invoke_def rl)
qed

section \<open>The first turn\<close>

lemma graph_invoke_first_turn:
  assumes "(n, s, pa) \<in> set (visited (graph_invoke rt env p [HumanMessage q]))"
  shows "s \<noteq> [] \<and> hd s = HumanMessage q"
proof -
  from run_from_prefix[of n s pa rt env "recursion_limit rt" "Node Generate_query_or_respond"
      p "[HumanMessage q]"] assms
  have "prefix [HumanMessage q] s" by (simp add: graph_invoke_def)
  then show ?thesis by (auto simp: prefix_def)
qed

text \<open>
  Claim C4. In every run that starts from the user's question, every node is entered with
  that question as the unchanged first turn, and so are the final turns; the prompt the
  rewriter builds is the rewrite prompt of that original question; and when a rewrite
  node returns, the state is the one it was entered with plus one new user turn, whose
  text is the model's answer to that prompt, and the run goes back to the routing node.
\<close>

theorem rewriter_uses_original_question:
  assumes "(n, s, pa) \<in> set (visited (graph_invoke rt env p [HumanMessage q]))"
  shows "hd s = HumanMessage q
       \<and> rewrite_prompt s = Inr (REWRITE_PROMPT q)
       \<and> (n = Rewrite_question \<and> step rt env n pa s = (Inr (t, ms1), p1) \<longrightarrow>
            t = Node Generate_query_or_respond \<and> hd ms1 = HumanMessage q \<and>
            (\<exists>c. ms1 = s @ [HumanMessage c] \<and>
                 llm_invoke env (world pa) (REWRITE_PROMPT q) = (Inr c, world p1)))
       \<and> (outcome (graph_invoke rt env p [HumanMessage q]) = Inr ms' \<longrightarrow>
            hd ms' = HumanMessage q)"
proof -
  from graph_invoke_first_turn[OF assms] have s: "s \<noteq> []" "hd s = HumanMessage q" by simp_all
  then have c: "content (hd s) = q" by (simp add: HumanMessage_def)
  have rp: "rewrite_prompt s = Inr (REWRITE_PROMPT q)"
    using s c by (cases s) (simp_all add: rewrite_prompt_def Let_def)
  have st: "n = Rewrite_question \<and> step rt env n pa s = (Inr (t, ms1), p1) \<longrightarrow>
            t = Node Generate_query_or_respond \<and> hd ms1 = HumanMessage q \<and>
            (\<exists>c. ms1 = s @ [HumanMessage c] \<and>
                 llm_invoke env (world pa) (REWRITE_PROMPT q) = (Inr c, world p1))"
    using step_rewrite_call[of rt env pa s t ms1 p1] s c by auto
  have fin: "outcome (graph_invoke rt env p [HumanMessage q]) = Inr ms' \<longrightarrow> hd ms' = HumanMessage q"
    using run_from_prefix[of n s pa rt env "recursion_limit rt" "Node Generate_query_or_respond"
      p "[HumanMessage q]" ms']
    by (auto simp: graph_invoke_def prefix_def)
  from s(2) rp st fin show ?thesis by blast
qed

theorem rewriter_uses_original_question_witness:
  "(Rewrite_question, [HumanMessage ''hi'', AIMessage '''' [''q''], ToolMessage demo_body],
      \<lparr>retrieved_sources = demo_sources, world = Suc 0\<rparr>)
     \<in> set (visited (graph_invoke short_runtime never_relevant_env demo_process [HumanMessage ''hi'']))
   \<and> rewrite_prompt [HumanMessage ''hi'', AIMessage '''' [''q''], ToolMessage demo_body]
       = Inr (REWRITE_PROMPT ''hi'')
   \<and> step short_runtime never_relevant_env Rewrite_question
        \<lparr>retrieved_sources = demo_sources, world = Suc 0\<rparr>
        [HumanMessage ''hi'', AIMessage '''' [''q''], ToolMessage demo_body]
       = (Inr (Node Generate_query_or_respond,
               [HumanMessage ''hi'', AIMessage '''' [''q''], ToolMessage demo_body,
                HumanMessage ''model text'']),
          \<lparr>retrieved_sources = demo_sources, world = Suc 0\<rparr>)"
proof -
  have m: "(Rewrite_question, [HumanMessage ''hi'', AIMessage '''' [''q''], ToolMessage demo_body],
      \<lparr>retrieved_sources = demo_sources, world = Suc 0\<rparr>)
     \<in> set (visited (graph_invoke short_runtime never_relevant_env demo_process [HumanMessage ''hi'']))"
    by (simp add: never_relevant_three)
  have st: "step short_runtime never_relevant_env Rewrite_question
        \<lparr>retrieved_sources = demo_sources, world = Suc 0\<rparr>
        [HumanMessage ''hi'', AIMessage '''' [''q''], ToolMessage demo_body]
       = (Inr (Node Generate_query_or_respond,
               [HumanMessage ''hi'', AIMessage '''' [''q''], ToolMessage demo_body,
                HumanMessage ''model text'']),
          \<lparr>retrieved_sources = demo_sources, world = Suc 0\<rparr>)"
    by (simp add: never_relevant_rewrite)
  from rewriter_uses_original_question[OF m] m st show ?thesis
    by simp
qed

section \<open>The context of the answer\<close>







section \<open>Failures\<close>













end
